theory Spec2Isabelle
  imports Main
begin

section \<open>The redirect engine\<close>

text \<open>
  A shallow embedding of the request-dispatch engine of the redirect service (package
  \<open>redirect\<close>, type \<open>engine\<close>): its constructor \<open>DefaultEngine\<close>, the handler
  \<open>ServeHTTP\<close>, \<open>Reload\<close>, \<open>Redirect\<close>, \<open>IsRegularUser\<close> and
  \<open>ProcessRegularUserUrl\<close>.

  Go strings are byte sequences and are modelled as \<open>string\<close>. A Go \<open>error\<close> is
  represented by the text its \<open>Error()\<close> method gives. The engine runs one handler at a
  time here: the read-write lock of the Go code guards the single assignment to
  \<open>rules\<close> and has no counterpart in a sequential model.
\<close>

type_synonym error = string

subsection \<open>Byte-string helpers of package strings\<close>

text \<open>\<open>strings.HasPrefix\<close> and \<open>strings.Contains\<close>: \<open>Contains s substr\<close> holds when
  \<open>substr\<close> occurs in \<open>s\<close> as a contiguous run of bytes; the empty string occurs in
  every string.\<close>

fun HasPrefix :: "string \<Rightarrow> string \<Rightarrow> bool" where
  "HasPrefix s [] = True"
| "HasPrefix [] (p # ps) = False"
| "HasPrefix (c # cs) (p # ps) = (c = p \<and> HasPrefix cs ps)"

fun Contains :: "string \<Rightarrow> string \<Rightarrow> bool" where
  "Contains [] substr = (substr = [])"
| "Contains (c # cs) substr = (HasPrefix (c # cs) substr \<or> Contains cs substr)"

text \<open>\<open>strings.Trim s cutset\<close> drops the leading and the trailing bytes of \<open>s\<close> that
  belong to \<open>cutset\<close>. The engine calls it with the cutset \<open>"/"\<close> only.\<close>

definition Trim :: "string \<Rightarrow> string \<Rightarrow> string" where
  "Trim s cutset =
     rev (dropWhile (\<lambda>c. c \<in> set cutset) (rev (dropWhile (\<lambda>c. c \<in> set cutset) s)))"

text \<open>\<open>strings.Split s sep\<close> for a separator of one byte, which is how the engine calls
  it (\<open>"|"\<close>): the pieces between the occurrences of the separator. The result is never
  empty: a string without the separator, the empty string too, gives the list of that one
  string.\<close>

fun Split :: "string \<Rightarrow> char \<Rightarrow> string list" where
  "Split [] sep = [[]]"
| "Split (c # cs) sep =
     (if c = sep then [] # Split cs sep
      else (case Split cs sep of
              [] \<Rightarrow> [[c]]
            | piece # pieces \<Rightarrow> (c # piece) # pieces))"

text \<open>\<open>strings.HasSuffix\<close>, \<open>strings.Join\<close>, and \<open>path.Split\<close>, which cuts a path
  after its last slash: the directory with the slash, and the file; a path without a slash
  is all file.\<close>

definition HasSuffix :: "string \<Rightarrow> string \<Rightarrow> bool" where
  "HasSuffix s suffix = HasPrefix (rev s) (rev suffix)"

fun Join :: "string list \<Rightarrow> string \<Rightarrow> string" where
  "Join [] sep = []"
| "Join [a] sep = a"
| "Join (a # b # rest) sep = a @ sep @ Join (b # rest) sep"

definition path_Split :: "string \<Rightarrow> string \<times> string" where
  "path_Split p =
     (rev (dropWhile (\<lambda>c. c \<noteq> CHR ''/'') (rev p)), rev (takeWhile (\<lambda>c. c \<noteq> CHR ''/'') (rev p)))"

subsection \<open>Collaborators and libraries\<close>

text \<open>A rule as the storage hands it out. The engine reads two fields of it: the service
  key \<open>URL\<close> and the template source \<open>LocationTemplate\<close>.\<close>

record Rule =
  URL :: string
  LocationTemplate :: string

text \<open>Modelled from the spec: the \<open>Storage\<close> interface is declared outside the engine's
  file. The spec gives it one operation the engine consumes,
  \<open>All() \<rightarrow> sequence of Rule | StorageError\<close>; a storage is represented by the answer
  its \<open>All()\<close> gives at the time of the call.\<close>

record Storage =
  Storage_All :: "error + Rule list"

text \<open>Modelled from the spec: the \<open>StatWriter\<close> interface is declared outside the engine's
  file. The spec gives it one operation, \<open>Touch(serviceKey)\<close>, a notification that
  returns nothing; a sink is represented by the keys it has been notified of, oldest
  first.\<close>

record StatWriter =
  touched :: "string list"

definition Touch :: "string \<Rightarrow> StatWriter \<Rightarrow> StatWriter" where
  "Touch service sink = sink\<lparr>touched := touched sink @ [service]\<rparr>"

text \<open>The part of \<open>http.Request\<close> the engine itself reads: the method, \<open>URL.Path\<close> and
  the \<open>User-Agent\<close> header (\<open>rq.UserAgent()\<close>). Templates may read more of the request;
  that is what the extension slot of the record stands for.\<close>

record request =
  Method :: string
  URL_Path :: string
  UserAgent :: string

text \<open>
  The functions of Go's standard library whose results depend on a template language or on
  Unicode tables are parameters of the model:
  \<^item> \<open>Parse\<close> is \<open>template.New("").Parse\<close>: a compiled template or the parse error;
  \<^item> \<open>Execute\<close> is \<open>tpl.Execute(buf, rq)\<close>: the contents of the buffer, or the error;
  \<^item> \<open>ToLower\<close> is \<open>strings.ToLower\<close> and \<open>TrimSpace\<close> is \<open>strings.TrimSpace\<close>;
  \<^item> \<open>url_Parse\<close> is \<open>url.Parse\<close>, as far as \<open>http.Redirect\<close> reads its result:
    \<open>None\<close> when it returns an error, the scheme and the host of the URL otherwise;
  \<^item> \<open>path_Clean\<close> is \<open>path.Clean\<close> and \<open>StatusText\<close> is \<open>http.StatusText\<close>.
\<close>

record ('tpl, 'r) lib =
  Parse :: "string \<Rightarrow> error + 'tpl"
  Execute :: "'tpl \<Rightarrow> 'r request_scheme \<Rightarrow> error + string"
  ToLower :: "string \<Rightarrow> string"
  TrimSpace :: "string \<Rightarrow> string"
  url_Parse :: "string \<Rightarrow> (string \<times> string) option"
  path_Clean :: "string \<Rightarrow> string"
  StatusText :: "nat \<Rightarrow> string"

subsection \<open>The response writer\<close>

text \<open>
  An \<open>http.ResponseWriter\<close> is modelled as a recorder of what the handler does to it: the
  header map, the status code once it has been written, and the bytes written to the
  body. Header entries are kept in the order they were added.
  \<^item> \<open>Header().Add\<close> appends an entry, \<open>Header().Set\<close> replaces the entries of a key;
  \<^item> \<open>WriteHeader\<close> fixes the status code, once;
  \<^item> \<open>fmt.Fprintln\<close> appends its operand and a newline to the body;
  \<^item> \<open>http.Error\<close> sets the two headers of a plain-text error, writes the code and
    prints the message; \<open>http.NotFound\<close> is \<open>http.Error\<close> with the message
    \<open>404 page not found\<close>;
  \<^item> \<open>http.Redirect\<close> follows the library's source statement by statement, see below.
\<close>

record ResponseWriter =
  Header :: "(string \<times> string) list"
  status :: "nat option"
  body :: string

definition newResponseWriter :: ResponseWriter where
  "newResponseWriter = \<lparr>Header = [], status = None, body = []\<rparr>"

definition Header_Add :: "string \<Rightarrow> string \<Rightarrow> ResponseWriter \<Rightarrow> ResponseWriter" where
  "Header_Add key v wr = wr\<lparr>Header := Header wr @ [(key, v)]\<rparr>"

definition Header_Set :: "string \<Rightarrow> string \<Rightarrow> ResponseWriter \<Rightarrow> ResponseWriter" where
  "Header_Set key v wr = wr\<lparr>Header := filter (\<lambda>kv. fst kv \<noteq> key) (Header wr) @ [(key, v)]\<rparr>"

definition Header_Values :: "string \<Rightarrow> ResponseWriter \<Rightarrow> string list" where
  "Header_Values key wr = map snd (filter (\<lambda>kv. fst kv = key) (Header wr))"

definition WriteHeader :: "nat \<Rightarrow> ResponseWriter \<Rightarrow> ResponseWriter" where
  "WriteHeader code wr = (case status wr of None \<Rightarrow> wr\<lparr>status := Some code\<rparr> | Some _ \<Rightarrow> wr)"

definition StatusOK :: nat where "StatusOK = 200"
definition StatusMovedPermanently :: nat where "StatusMovedPermanently = 301"
definition StatusNotFound :: nat where "StatusNotFound = 404"
definition StatusInternalServerError :: nat where "StatusInternalServerError = 500"

definition http_Error :: "ResponseWriter \<Rightarrow> string \<Rightarrow> nat \<Rightarrow> ResponseWriter" where
  "http_Error wr msg code =
     (let wr1 = Header_Set ''Content-Type'' ''text/plain; charset=utf-8'' wr;
          wr2 = Header_Set ''X-Content-Type-Options'' ''nosniff'' wr1;
          wr3 = WriteHeader code wr2
      in wr3\<lparr>body := body wr3 @ msg @ [CHR 0x0A]\<rparr>)"

definition http_NotFound :: "ResponseWriter \<Rightarrow> 'r request_scheme \<Rightarrow> ResponseWriter" where
  "http_NotFound wr rq = http_Error wr ''404 page not found'' StatusNotFound"

definition Fprintln :: "ResponseWriter \<Rightarrow> string \<Rightarrow> ResponseWriter" where
  "Fprintln wr msg = wr\<lparr>body := body wr @ msg @ [CHR 0x0A]\<rparr>"

text \<open>\<open>hexEscapeNonASCII\<close> of \<open>net/http\<close> writes every byte from 0x80 on as \<open>%\<close> and
  its two hexadecimal digits, in lower case. \<open>htmlEscape\<close> replaces the five characters
  \<open>&\<close>, \<open><\<close>, \<open>>\<close>, the double quote and the single quote.\<close>

definition hex_digit :: "nat \<Rightarrow> char" where
  "hex_digit n = ''0123456789abcdef'' ! (n mod 16)"

definition hexEscapeNonASCII :: "string \<Rightarrow> string" where
  "hexEscapeNonASCII s =
     concat (map (\<lambda>c. if (128::nat) \<le> of_char c
                         then [CHR ''%'', hex_digit (of_char c div 16), hex_digit (of_char c)]
                         else [c]) s)"

definition htmlEscape :: "string \<Rightarrow> string" where
  "htmlEscape s =
     concat (map (\<lambda>c. if c = CHR ''&'' then ''&amp;''
                       else if c = CHR ''<'' then ''&lt;''
                       else if c = CHR ''>'' then ''&gt;''
                       else if c = CHR 0x22 then ''&#34;''
                       else if c = CHR 0x27 then ''&#39;''
                       else [c]) s)"

text \<open>
  The first half of \<open>http.Redirect\<close>: the URL it goes on with. When \<open>url.Parse\<close>
  accepts the URL and finds neither a scheme nor a host, the URL is a path: unless it
  starts with a slash it is put behind the directory of the request path (\<open>/\<close> stands
  in for an empty request path); the part before the first \<open>?\<close> is cleaned with
  \<open>path.Clean\<close>, keeping a trailing slash; the query is put back. Every other URL is
  left as it is.
\<close>

definition http_Redirect_url :: "('tpl, 'r) lib \<Rightarrow> 'r request_scheme \<Rightarrow> string \<Rightarrow> string" where
  "http_Redirect_url L rq url =
     (case url_Parse L url of
        None \<Rightarrow> url
      | Some (scheme, host) \<Rightarrow>
          if scheme = [] \<and> host = [] then
            (let oldpath = (if URL_Path rq = [] then ''/'' else URL_Path rq);
                 url1 = (if url = [] \<or> hd url \<noteq> CHR ''/''
                         then fst (path_Split oldpath) @ url else url);
                 upath = takeWhile (\<lambda>c. c \<noteq> CHR ''?'') url1;
                 query = dropWhile (\<lambda>c. c \<noteq> CHR ''?'') url1;
                 trailing = HasSuffix upath ''/'';
                 cleaned = path_Clean L upath
             in (if trailing \<and> \<not> HasSuffix cleaned ''/'' then cleaned @ ''/'' else cleaned)
                @ query)
          else url)"

text \<open>
  The second half: \<open>Location\<close> is set to that URL, percent-escaped; unless the handler
  had set a \<open>Content-Type\<close>, GET and HEAD get the content type of a page; the code is
  written; and, again unless a \<open>Content-Type\<close> had been set, GET gets a one-line page
  with a link to the URL.
\<close>

definition http_Redirect ::
  "('tpl, 'r) lib \<Rightarrow> ResponseWriter \<Rightarrow> 'r request_scheme \<Rightarrow> string \<Rightarrow> nat \<Rightarrow> ResponseWriter" where
  "http_Redirect L wr rq url code =
     (let url' = http_Redirect_url L rq url;
          hadCT = (''Content-Type'' \<in> fst ` set (Header wr));
          wr1 = Header_Set ''Location'' (hexEscapeNonASCII url') wr;
          wr2 = (if \<not> hadCT \<and> (Method rq = ''GET'' \<or> Method rq = ''HEAD'')
                 then Header_Set ''Content-Type'' ''text/html; charset=utf-8'' wr1 else wr1);
          wr3 = WriteHeader code wr2
      in if \<not> hadCT \<and> Method rq = ''GET'' then
           Fprintln wr3 (''<a href='' @ [CHR 0x22] @ htmlEscape url' @ [CHR 0x22] @ ''>'' @
                         StatusText L code @ ''</a>.'' @ [CHR 0x0A])
         else wr3)"

subsection \<open>The engine\<close>

record 'tpl engine =
  storage :: Storage
  stat :: StatWriter
  rules :: "string \<rightharpoonup> 'tpl"
  defaultUrl :: string
  urlParameter :: string
  robots :: "string list"


text \<open>The loop of \<open>IsRegularUser\<close> over the robot list, leaving with \<open>false\<close> at the
  first non-empty robot string that occurs in the lower-cased user agent.\<close>

fun robots_loop :: "string \<Rightarrow> string list \<Rightarrow> bool" where
  "robots_loop userAgent [] = True"
| "robots_loop userAgent (robot # rest) =
     (if robot \<noteq> [] \<and> Contains userAgent robot then False
      else robots_loop userAgent rest)"

definition IsRegularUser :: "('tpl, 'r) lib \<Rightarrow> 'tpl engine \<Rightarrow> 'r request_scheme \<Rightarrow> bool" where
  "IsRegularUser L eng rq =
     (let userAgent = ToLower L (UserAgent rq) in robots_loop userAgent (robots eng))"

definition ProcessRegularUserUrl :: "'tpl engine \<Rightarrow> string \<Rightarrow> string" where
  "ProcessRegularUserUrl eng url =
     (if urlParameter eng = [] then url
      else if Contains url ''?'' then url @ ''&'' @ urlParameter eng
      else url @ ''?'' @ urlParameter eng)"

definition Redirect ::
  "('tpl, 'r) lib \<Rightarrow> 'tpl engine \<Rightarrow> string \<Rightarrow> ResponseWriter \<Rightarrow> 'r request_scheme \<Rightarrow> ResponseWriter" where
  "Redirect L eng url wr rq =
     (let url' = (if IsRegularUser L eng rq then ProcessRegularUserUrl eng url else url);
          wr' = Header_Add ''Content-Length'' ''0'' wr
      in http_Redirect L wr' rq url' StatusMovedPermanently)"

text \<open>What one call of \<open>ServeHTTP\<close> leaves behind: the response writer, the engine (its
  sink has been notified or not; the handler assigns to no other field), and the lines
  it printed to the log, without the logger's time prefix.\<close>

record 'tpl served =
  writer :: ResponseWriter
  engine_after :: "'tpl engine"
  logged :: "string list"

text \<open>\<open>log.Println\<close> prints its operands separated by spaces and ends the line.\<close>

fun Sprintln :: "string list \<Rightarrow> string" where
  "Sprintln [] = [CHR 0x0A]"
| "Sprintln [a] = a @ [CHR 0x0A]"
| "Sprintln (a # b # rest) = a @ '' '' @ Sprintln (b # rest)"

text \<open>The handler. \<open>defer rq.Body.Close()\<close> releases the request body and has no
  effect on the response, the engine or the log.\<close>

definition ServeHTTP ::
  "('tpl, 'r) lib \<Rightarrow> 'tpl engine \<Rightarrow> ResponseWriter \<Rightarrow> 'r request_scheme \<Rightarrow> 'tpl served" where
  "ServeHTTP L eng wr rq =
     (let service = Trim (URL_Path rq) ''/'' in
      case rules eng service of
        None \<Rightarrow>
          (if defaultUrl eng \<noteq> [] then
             \<lparr>writer = Redirect L eng (defaultUrl eng) wr rq, engine_after = eng, logged = []\<rparr>
           else
             \<lparr>writer = http_NotFound wr rq, engine_after = eng, logged = []\<rparr>)
      | Some tpl \<Rightarrow>
          (let eng1 = eng\<lparr>stat := Touch service (stat eng)\<rparr> in
           case Execute L tpl rq of
             Inl err \<Rightarrow>
               \<lparr>writer = http_Error wr err StatusInternalServerError,
                engine_after = eng1,
                logged = [Sprintln [''engine: failed execute template for service'',
                                    service, '':'', err]]\<rparr>
           | Inr urlData \<Rightarrow>
               (let url = TrimSpace L urlData in
                if Method rq = ''HEAD'' then
                  \<lparr>writer = WriteHeader StatusOK (Header_Add ''Location'' url wr),
                   engine_after = eng1, logged = []\<rparr>
                else
                  \<lparr>writer = Redirect L eng1 url wr rq, engine_after = eng1, logged = []\<rparr>)))"

text \<open>The loop of \<open>Reload\<close>: every rule's template is parsed into the fresh table
  \<open>swap\<close>; the first parse error leaves the loop with the error, wrapped with the rule's
  key.\<close>

fun Reload_loop ::
  "('tpl, 'r) lib \<Rightarrow> Rule list \<Rightarrow> (string \<rightharpoonup> 'tpl) \<Rightarrow> error + (string \<rightharpoonup> 'tpl)" where
  "Reload_loop L [] swap = Inr swap"
| "Reload_loop L (rule # rest) swap =
     (case Parse L (LocationTemplate rule) of
        Inl err \<Rightarrow> Inl (''engine: parse rule for url '' @ URL rule @ '': '' @ err)
      | Inr t \<Rightarrow> Reload_loop L rest (swap(URL rule \<mapsto> t)))"

text \<open>\<open>Reload\<close> returns the error (\<open>None\<close> is Go's nil error) and the engine after the
  call.\<close>

definition Reload :: "('tpl, 'r) lib \<Rightarrow> 'tpl engine \<Rightarrow> error option \<times> 'tpl engine" where
  "Reload L eng =
     (case Storage_All (storage eng) of
        Inl err \<Rightarrow> (Some (''engine: read rules from storage: '' @ err), eng)
      | Inr rs \<Rightarrow>
          (case Reload_loop L rs Map.empty of
             Inl err \<Rightarrow> (Some err, eng)
           | Inr swap \<Rightarrow> (None, eng\<lparr>rules := swap\<rparr>)))"

subsection \<open>The spec's notions, for comparison with the code\<close>

text \<open>
  The table a successful reload installs, described without the loop: a key resolves to the
  compiled template of the last rule of the rule set that carries the key, and to nothing
  when no rule of the set carries it.
\<close>

definition built_table :: "('tpl, 'r) lib \<Rightarrow> Rule list \<Rightarrow> (string \<rightharpoonup> 'tpl)" where
  "built_table L rs =
     (\<lambda>key. case find (\<lambda>r. URL r = key) (rev rs) of
               None \<Rightarrow> None
             | Some r \<Rightarrow> (case Parse L (LocationTemplate r) of Inl _ \<Rightarrow> None | Inr t \<Rightarrow> Some t))"

text \<open>
  The Redirect Policy as the spec words it (\<open>Decorate(url, isRegular, queryParam)\<close>): a
  robot gets the URL unchanged; a regular client gets the query parameter appended, with
  \<open>&\<close> when the URL already has a \<open>?\<close> and with \<open>?\<close> otherwise, unless the
  parameter is empty. The final URL of a request is the policy applied with the engine's
  robot check and query parameter.
\<close>

definition Decorate :: "string \<Rightarrow> bool \<Rightarrow> string \<Rightarrow> string" where
  "Decorate url isRegular queryParam =
     (if \<not> isRegular then url
      else if queryParam \<noteq> [] then
        (if Contains url ''?'' then url @ ''&'' @ queryParam else url @ ''?'' @ queryParam)
      else url)"

definition finalUrl :: "('tpl, 'r) lib \<Rightarrow> 'tpl engine \<Rightarrow> 'r request_scheme \<Rightarrow> string \<Rightarrow> string" where
  "finalUrl L eng rq url = Decorate url (IsRegularUser L eng rq) (urlParameter eng)"

subsection \<open>A library instance and an engine for concrete runs\<close>

text \<open>
  Concrete runs need a template library. This instance covers the templates used below and
  behaves on them as \<open>text/template\<close> does: a text without \<open>{{\<close> has no action and
  renders as itself; \<open>{{.Foo}}\<close> parses, and fails to execute because \<open>http.Request\<close>
  has no field \<open>Foo\<close>; any other text with \<open>{{\<close> is rejected with the message of an
  unclosed action, which is what the one such template used below (it ends in \<open>{{\<close>)
  gets. \<open>ascii_ToLower\<close> and \<open>ascii_TrimSpace\<close> are \<open>strings.ToLower\<close> and
  \<open>strings.TrimSpace\<close> on ASCII strings. \<open>plain_url_Parse\<close> reads a URL that starts
  with \<open>http://\<close> as one with that scheme and the host that follows, and any other as a
  path without scheme and host. \<open>plain_path_Clean\<close> is \<open>path.Clean\<close> done on the
  elements of the path: empty elements and \<open>.\<close> go, \<open>..\<close> takes the element before it
  along, and stays only at the start of a path that is not rooted.
\<close>

definition lower_byte :: "char \<Rightarrow> char" where
  "lower_byte c =
     (case map_of (zip ''ABCDEFGHIJKLMNOPQRSTUVWXYZ'' ''abcdefghijklmnopqrstuvwxyz'') c of
        None \<Rightarrow> c
      | Some l \<Rightarrow> l)"

definition ascii_ToLower :: "string \<Rightarrow> string" where
  "ascii_ToLower s = map lower_byte s"

definition asciiSpace :: "char \<Rightarrow> bool" where
  "asciiSpace c = (c \<in> set [CHR 0x09, CHR 0x0A, CHR 0x0B, CHR 0x0C, CHR 0x0D, CHR '' ''])"

definition ascii_TrimSpace :: "string \<Rightarrow> string" where
  "ascii_TrimSpace s = rev (dropWhile asciiSpace (rev (dropWhile asciiSpace s)))"

definition plain_Parse :: "string \<Rightarrow> error + string" where
  "plain_Parse src =
     (if \<not> Contains src ''{{'' \<or> src = ''{{.Foo}}'' then Inr src
      else Inl ''template: :1: unclosed action'')"

definition plain_Execute :: "string \<Rightarrow> 'r request_scheme \<Rightarrow> error + string" where
  "plain_Execute tpl rq =
     (if tpl = ''{{.Foo}}'' then
        Inl (''template: :1:2: executing '' @ [CHR 0x22, CHR 0x22] @
             '' at <.Foo>: can't evaluate field Foo in type *http.Request'')
      else Inr tpl)"

definition plain_url_Parse :: "string \<Rightarrow> (string \<times> string) option" where
  "plain_url_Parse url =
     (if HasPrefix url ''http://''
      then Some (''http'', takeWhile (\<lambda>c. c \<notin> set ''/?#'') (drop 7 url))
      else Some ([], []))"

fun Clean_loop :: "bool \<Rightarrow> string list \<Rightarrow> string list \<Rightarrow> string list" where
  "Clean_loop rooted out [] = rev out"
| "Clean_loop rooted out (e # es) =
     (if e = [] \<or> e = ''.'' then Clean_loop rooted out es
      else if e = ''..'' then
        (case out of
           [] \<Rightarrow> if rooted then Clean_loop rooted [] es else Clean_loop rooted [e] es
         | e1 # below \<Rightarrow>
             if e1 = ''..'' then Clean_loop rooted (e # out) es
             else Clean_loop rooted below es)
      else Clean_loop rooted (e # out) es)"

definition plain_path_Clean :: "string \<Rightarrow> string" where
  "plain_path_Clean p =
     (if p = [] then ''.''
      else
        (let rooted = (hd p = CHR ''/'');
             elems = Join (Clean_loop rooted [] (Split p (CHR ''/''))) ''/''
         in if rooted then CHR ''/'' # elems else if elems = [] then ''.'' else elems))"

definition plain_StatusText :: "nat \<Rightarrow> string" where
  "plain_StatusText code =
     (if code = 200 then ''OK''
      else if code = 301 then ''Moved Permanently''
      else if code = 404 then ''Not Found''
      else if code = 500 then ''Internal Server Error''
      else [])"

definition plain_lib :: "(string, unit) lib" where
  "plain_lib = \<lparr>Parse = plain_Parse, Execute = plain_Execute,
                 ToLower = ascii_ToLower, TrimSpace = ascii_TrimSpace,
                 url_Parse = plain_url_Parse, path_Clean = plain_path_Clean,
                 StatusText = plain_StatusText\<rparr>"

definition demo_engine :: "string engine" where
  "demo_engine =
     \<lparr>storage = \<lparr>Storage_All = Inr []\<rparr>, stat = \<lparr>touched = []\<rparr>,
      rules = [''t'' \<mapsto> ''http://t.com'', ''q'' \<mapsto> ''http://t.com?id=1'',
               ''home'' \<mapsto> '' http://home.example '', ''broken'' \<mapsto> ''{{.Foo}}''],
      defaultUrl = ''http://home.example'', urlParameter = ''ref=x'',
      robots = [''bot'', ''crawler'']\<rparr>"

definition demo_rules_good :: "Rule list" where
  "demo_rules_good = [\<lparr>URL = ''a'', LocationTemplate = ''http://a.example''\<rparr>,
                      \<lparr>URL = ''c'', LocationTemplate = ''http://c.example''\<rparr>]"

definition demo_rules_bad :: "Rule list" where
  "demo_rules_bad = [\<lparr>URL = ''a'', LocationTemplate = ''http://a.example''\<rparr>,
                     \<lparr>URL = ''b'', LocationTemplate = ''http://b.example/{{''\<rparr>,
                     \<lparr>URL = ''c'', LocationTemplate = ''http://c.example''\<rparr>]"




definition demo_request :: "string \<Rightarrow> string \<Rightarrow> string \<Rightarrow> request" where
  "demo_request m p ua = \<lparr>Method = m, URL_Path = p, UserAgent = ua\<rparr>"

section \<open>Properties\<close>

subsection \<open>Unfolding the concrete instance\<close>

lemma demo_request_sel [simp]:
  "Method (demo_request m p ua) = m" "URL_Path (demo_request m p ua) = p"
  "UserAgent (demo_request m p ua) = ua"
  by (simp_all add: demo_request_def)

lemmas demo_defs = demo_engine_def demo_request_def plain_lib_def plain_Parse_def plain_Execute_def
  ascii_ToLower_def ascii_TrimSpace_def asciiSpace_def lower_byte_def newResponseWriter_def
  plain_url_Parse_def plain_path_Clean_def plain_StatusText_def http_Redirect_url_def
  hexEscapeNonASCII_def htmlEscape_def Fprintln_def path_Split_def HasSuffix_def
  ServeHTTP_def Redirect_def IsRegularUser_def ProcessRegularUserUrl_def Trim_def
  http_Redirect_def http_Error_def http_NotFound_def WriteHeader_def Header_Add_def Header_Set_def
  Header_Values_def StatusOK_def StatusMovedPermanently_def StatusNotFound_def
  StatusInternalServerError_def Touch_def Let_def

subsection \<open>Strings, the robot loop and the reload loop\<close>

lemma HasPrefix_iff: "HasPrefix s p \<longleftrightarrow> (\<exists>zs. s = p @ zs)"
  by (induction s p rule: HasPrefix.induct) auto

lemma Contains_iff: "Contains s substr \<longleftrightarrow> (\<exists>ys zs. s = ys @ substr @ zs)"
proof (induction s)
  case Nil
  then show ?case by auto
next
  case (Cons c cs)
  show ?case
  proof
    assume "Contains (c # cs) substr"
    then consider "HasPrefix (c # cs) substr" | "Contains cs substr" by auto
    then show "\<exists>ys zs. c # cs = ys @ substr @ zs"
    proof cases
      case 1
      then obtain zs where "c # cs = substr @ zs" by (auto simp: HasPrefix_iff)
      then have "c # cs = [] @ substr @ zs" by simp
      then show ?thesis by blast
    next
      case 2
      then obtain ys zs where "cs = ys @ substr @ zs" using Cons.IH by auto
      then have "c # cs = (c # ys) @ substr @ zs" by simp
      then show ?thesis by blast
    qed
  next
    assume "\<exists>ys zs. c # cs = ys @ substr @ zs"
    then obtain ys zs where e: "c # cs = ys @ substr @ zs" by auto
    show "Contains (c # cs) substr"
    proof (cases ys)
      case Nil
      with e have "HasPrefix (c # cs) substr" by (auto simp: HasPrefix_iff)
      then show ?thesis by simp
    next
      case (Cons y ys')
      with e have "cs = ys' @ substr @ zs" by simp
      then have "Contains cs substr" using Cons.IH by blast
      then show ?thesis by simp
    qed
  qed
qed


lemma find_snoc:
  "find P (xs @ [x]) = (case find P xs of None \<Rightarrow> (if P x then Some x else None) | Some y \<Rightarrow> Some y)"
  by (induction xs) auto

lemma find_Some_mem: "find P xs = Some x \<Longrightarrow> x \<in> set xs"
  by (induction xs) (auto split: if_splits)

lemma built_table_Cons:
  assumes "Parse L (LocationTemplate r) = Inr t"
    and "\<forall>q\<in>set rest. \<not> isl (Parse L (LocationTemplate q))"
  shows "swap(URL r \<mapsto> t) ++ built_table L rest = swap ++ built_table L (r # rest)"
proof
  fix key
  show "(swap(URL r \<mapsto> t) ++ built_table L rest) key = (swap ++ built_table L (r # rest)) key"
  proof (cases "find (\<lambda>q. URL q = key) (rev rest)")
    case None
    then show ?thesis
      using assms(1) by (simp add: built_table_def map_add_def find_snoc)
  next
    case (Some q)
    then have "q \<in> set rest"
      using find_Some_mem [of "\<lambda>q. URL q = key" "rev rest" q] by simp
    with assms(2) obtain u where "Parse L (LocationTemplate q) = Inr u"
      by (cases "Parse L (LocationTemplate q)") auto
    with Some show ?thesis
      by (simp add: built_table_def map_add_def find_snoc)
  qed
qed

lemma Reload_loop_ok:
  "\<forall>r\<in>set rs. \<not> isl (Parse L (LocationTemplate r)) \<Longrightarrow>
   Reload_loop L rs swap = Inr (swap ++ built_table L rs)"
proof (induction rs arbitrary: swap)
  case Nil
  then show ?case by (simp add: built_table_def)
next
  case (Cons r rest)
  then obtain t where t: "Parse L (LocationTemplate r) = Inr t"
    by (cases "Parse L (LocationTemplate r)") auto
  from Cons.prems have rest: "\<forall>q\<in>set rest. \<not> isl (Parse L (LocationTemplate q))" by simp
  have "Reload_loop L (r # rest) swap = Reload_loop L rest (swap(URL r \<mapsto> t))"
    using t by simp
  also have "\<dots> = Inr (swap(URL r \<mapsto> t) ++ built_table L rest)"
    using Cons.IH [OF rest] .
  also have "\<dots> = Inr (swap ++ built_table L (r # rest))"
    using built_table_Cons [OF t rest] by simp
  finally show ?case .
qed

lemma Reload_loop_fails:
  "\<exists>r\<in>set rs. isl (Parse L (LocationTemplate r)) \<Longrightarrow> \<exists>err. Reload_loop L rs swap = Inl err"
  by (induction rs arbitrary: swap) (auto split: sum.splits)

subsection \<open>Facts about Redirect and the library's redirect\<close>

lemma IsRegularUser_stat [simp]: "IsRegularUser L (eng\<lparr>stat := s\<rparr>) rq = IsRegularUser L eng rq"
  by (simp add: IsRegularUser_def)

lemma ProcessRegularUserUrl_stat [simp]:
  "ProcessRegularUserUrl (eng\<lparr>stat := s\<rparr>) url = ProcessRegularUserUrl eng url"
  by (simp add: ProcessRegularUserUrl_def)

lemma Redirect_stat [simp]: "Redirect L (eng\<lparr>stat := s\<rparr>) url wr rq = Redirect L eng url wr rq"
  by (simp add: Redirect_def)

lemma policy_is_finalUrl:
  "(if IsRegularUser L eng rq then ProcessRegularUserUrl eng url else url) = finalUrl L eng rq url"
  by (simp add: finalUrl_def Decorate_def ProcessRegularUserUrl_def)

lemma Redirect_eq:
  "Redirect L eng url wr rq =
     http_Redirect L (Header_Add ''Content-Length'' ''0'' wr) rq (finalUrl L eng rq url)
       StatusMovedPermanently"
  by (simp add: Redirect_def Let_def policy_is_finalUrl)

lemma Header_Values_Set_same: "Header_Values key (Header_Set key v wr) = [v]"
proof -
  have "filter (\<lambda>kv. fst kv = key) (filter (\<lambda>kv. fst kv \<noteq> key) xs) = []" for xs :: "(string \<times> string) list"
    by (induction xs) auto
  then show ?thesis
    by (simp add: Header_Values_def Header_Set_def)
qed

lemma Header_Values_Set_other:
  assumes "key \<noteq> key'"
  shows "Header_Values key (Header_Set key' v wr) = Header_Values key wr"
proof -
  have "filter (\<lambda>kv. fst kv = key) (filter (\<lambda>kv. fst kv \<noteq> key') xs) = filter (\<lambda>kv. fst kv = key) xs"
    for xs :: "(string \<times> string) list"
    using assms by (induction xs) auto
  then show ?thesis
    using assms by (simp add: Header_Values_def Header_Set_def)
qed

lemma Header_Values_WriteHeader [simp]:
  "Header_Values key (WriteHeader code wr) = Header_Values key wr"
  by (simp add: Header_Values_def WriteHeader_def split: option.splits)

lemma Header_Values_Fprintln [simp]:
  "Header_Values key (Fprintln wr msg) = Header_Values key wr"
  by (simp add: Header_Values_def Fprintln_def)

lemma status_Header_Set [simp]: "status (Header_Set key v wr) = status wr"
  by (simp add: Header_Set_def)

lemma status_Fprintln [simp]: "status (Fprintln wr msg) = status wr"
  by (simp add: Fprintln_def)

lemma http_Redirect_status:
  "status wr = None \<Longrightarrow> status (http_Redirect L wr rq url code) = Some code"
  by (simp add: http_Redirect_def Let_def WriteHeader_def)

lemma http_Redirect_Location:
  "Header_Values ''Location'' (http_Redirect L wr rq url code) =
     [hexEscapeNonASCII (http_Redirect_url L rq url)]"
  by (simp add: http_Redirect_def Let_def Header_Values_Set_same Header_Values_Set_other)

lemma http_Redirect_Content_Length:
  "Header_Values ''Content-Length'' (http_Redirect L wr rq url code) =
     Header_Values ''Content-Length'' wr"
  by (simp add: http_Redirect_def Let_def Header_Values_Set_other)

lemma hexEscapeNonASCII_ascii:
  "\<forall>c\<in>set s. (of_char c :: nat) < 128 \<Longrightarrow> hexEscapeNonASCII s = s"
  by (induction s) (simp_all add: hexEscapeNonASCII_def)

lemma http_Redirect_url_absolute:
  "url_Parse L url = Some (scheme, host) \<Longrightarrow> scheme \<noteq> [] \<or> host \<noteq> [] \<Longrightarrow>
   http_Redirect_url L rq url = url"
  by (auto simp: http_Redirect_url_def)

lemma http_Redirect_url_unparsed:
  "url_Parse L url = None \<Longrightarrow> http_Redirect_url L rq url = url"
  by (simp add: http_Redirect_url_def)

lemma Redirect_status: "status (Redirect L eng url newResponseWriter rq) = Some 301"
  by (simp add: Redirect_eq http_Redirect_status Header_Add_def newResponseWriter_def
      StatusMovedPermanently_def)

lemma Redirect_Location:
  "Header_Values ''Location'' (Redirect L eng url wr rq) =
     [hexEscapeNonASCII (http_Redirect_url L rq (finalUrl L eng rq url))]"
  by (simp add: Redirect_eq http_Redirect_Location)

lemma Redirect_Content_Length:
  "Header_Values ''Content-Length'' (Redirect L eng url newResponseWriter rq) = [''0'']"
  by (simp add: Redirect_eq http_Redirect_Content_Length)
    (simp add: Header_Values_def Header_Add_def newResponseWriter_def)

subsection \<open>Splitting and joining\<close>





subsection \<open>What a reload and a request leave alone\<close>


lemma Reload_config:
  "defaultUrl (snd (Reload L eng)) = defaultUrl eng"
  "urlParameter (snd (Reload L eng)) = urlParameter eng"
  by (simp_all add: Reload_def split: sum.splits)

lemma ServeHTTP_robots: "robots (engine_after (ServeHTTP L eng wr rq)) = robots eng"
  by (simp add: ServeHTTP_def Let_def split: option.splits sum.splits)

subsection \<open>The branches of ServeHTTP\<close>

lemma ServeHTTP_miss_default:
  assumes "rules eng (Trim (URL_Path rq) ''/'') = None" and "defaultUrl eng \<noteq> []"
  shows "ServeHTTP L eng wr rq =
           \<lparr>writer = Redirect L eng (defaultUrl eng) wr rq, engine_after = eng, logged = []\<rparr>"
  using assms by (simp add: ServeHTTP_def Let_def)

lemma ServeHTTP_miss_NotFound:
  assumes "rules eng (Trim (URL_Path rq) ''/'') = None" and "defaultUrl eng = []"
  shows "ServeHTTP L eng wr rq = \<lparr>writer = http_NotFound wr rq, engine_after = eng, logged = []\<rparr>"
  using assms by (simp add: ServeHTTP_def Let_def)

lemma ServeHTTP_hit_error:
  assumes "rules eng (Trim (URL_Path rq) ''/'') = Some tpl" and "Execute L tpl rq = Inl err"
  shows "ServeHTTP L eng wr rq =
           \<lparr>writer = http_Error wr err StatusInternalServerError,
            engine_after = eng\<lparr>stat := Touch (Trim (URL_Path rq) ''/'') (stat eng)\<rparr>,
            logged = [Sprintln [''engine: failed execute template for service'',
                                Trim (URL_Path rq) ''/'', '':'', err]]\<rparr>"
  using assms by (simp add: ServeHTTP_def Let_def)

lemma ServeHTTP_hit_HEAD:
  assumes "rules eng (Trim (URL_Path rq) ''/'') = Some tpl" and "Execute L tpl rq = Inr urlData"
    and "Method rq = ''HEAD''"
  shows "ServeHTTP L eng wr rq =
           \<lparr>writer = WriteHeader StatusOK (Header_Add ''Location'' (TrimSpace L urlData) wr),
            engine_after = eng\<lparr>stat := Touch (Trim (URL_Path rq) ''/'') (stat eng)\<rparr>,
            logged = []\<rparr>"
  using assms by (simp add: ServeHTTP_def Let_def)

lemma ServeHTTP_hit_other:
  assumes "rules eng (Trim (URL_Path rq) ''/'') = Some tpl" and "Execute L tpl rq = Inr urlData"
    and "Method rq \<noteq> ''HEAD''"
  shows "ServeHTTP L eng wr rq =
           \<lparr>writer = Redirect L eng (TrimSpace L urlData) wr rq,
            engine_after = eng\<lparr>stat := Touch (Trim (URL_Path rq) ''/'') (stat eng)\<rparr>,
            logged = []\<rparr>"
  using assms by (simp add: ServeHTTP_def Let_def)

lemma HEAD_writer_new:
  "WriteHeader StatusOK (Header_Add ''Location'' url newResponseWriter) =
     \<lparr>Header = [(''Location'', url)], status = Some 200, body = []\<rparr>"
  by (simp add: WriteHeader_def Header_Add_def newResponseWriter_def StatusOK_def)

lemma http_Error_new:
  "http_Error newResponseWriter msg code =
     \<lparr>Header = [(''Content-Type'', ''text/plain; charset=utf-8''),
                (''X-Content-Type-Options'', ''nosniff'')],
      status = Some code, body = msg @ [CHR 0x0A]\<rparr>"
  by (simp add: http_Error_def Let_def WriteHeader_def Header_Set_def newResponseWriter_def)

lemma ServeHTTP_engine_after:
  "engine_after (ServeHTTP L eng wr rq) =
     (case rules eng (Trim (URL_Path rq) ''/'') of
        None \<Rightarrow> eng
      | Some tpl \<Rightarrow> eng\<lparr>stat := Touch (Trim (URL_Path rq) ''/'') (stat eng)\<rparr>)"
  by (simp add: ServeHTTP_def Let_def split: option.splits sum.splits)

lemma miss_default_like_hit:
  assumes "rules eng (Trim (URL_Path rq) ''/'') = None" and "defaultUrl eng \<noteq> []"
    and "rules eng' (Trim (URL_Path rq) ''/'') = Some tpl" and "Execute L tpl rq = Inr urlData"
    and "TrimSpace L urlData = defaultUrl eng" and "Method rq \<noteq> ''HEAD''"
    and "urlParameter eng' = urlParameter eng" and "robots eng' = robots eng"
  shows "writer (ServeHTTP L eng' wr rq) = writer (ServeHTTP L eng wr rq)"
  using assms
  by (simp add: ServeHTTP_miss_default ServeHTTP_hit_other Redirect_def IsRegularUser_def
      ProcessRegularUserUrl_def)


section \<open>The claims\<close>

subsection \<open>C1: a reload is all or nothing\<close>

text \<open>
  Claim C1. For a rule set fetched from the storage: if the template of some rule fails to
  compile, \<open>Reload\<close> returns an error and the engine, its rule table included, is
  exactly what it was before the call, so no key of the failed set is visible to a later
  lookup; if every template compiles, \<open>Reload\<close> returns no error and the rule table is
  replaced as a whole by the table built from the rule set alone.
\<close>

theorem Reload_atomic:
  assumes "Storage_All (storage eng) = Inr rs"
  shows "((\<exists>r\<in>set rs. isl (Parse L (LocationTemplate r))) \<longrightarrow>
            (\<exists>err. Reload L eng = (Some err, eng)))
       \<and> ((\<forall>r\<in>set rs. \<not> isl (Parse L (LocationTemplate r))) \<longrightarrow>
            Reload L eng = (None, eng\<lparr>rules := built_table L rs\<rparr>))"
proof (intro conjI impI)
  assume "\<exists>r\<in>set rs. isl (Parse L (LocationTemplate r))"
  then obtain err where "Reload_loop L rs Map.empty = Inl err"
    using Reload_loop_fails by blast
  with assms show "\<exists>err. Reload L eng = (Some err, eng)"
    by (simp add: Reload_def)
next
  assume "\<forall>r\<in>set rs. \<not> isl (Parse L (LocationTemplate r))"
  then have "Reload_loop L rs Map.empty = Inr (Map.empty ++ built_table L rs)"
    by (rule Reload_loop_ok)
  with assms show "Reload L eng = (None, eng\<lparr>rules := built_table L rs\<rparr>)"
    by (simp add: Reload_def)
qed

text \<open>
  A run of C1: a rule set with one template that does not parse among two that do leaves the
  engine untouched; without the bad rule the table is replaced.
\<close>

theorem Reload_atomic_witness:
  "(\<exists>err. Reload plain_lib (demo_engine\<lparr>storage := \<lparr>Storage_All = Inr demo_rules_bad\<rparr>\<rparr>)
            = (Some err, demo_engine\<lparr>storage := \<lparr>Storage_All = Inr demo_rules_bad\<rparr>\<rparr>))
   \<and> Reload plain_lib (demo_engine\<lparr>storage := \<lparr>Storage_All = Inr demo_rules_good\<rparr>\<rparr>)
       = (None, demo_engine\<lparr>storage := \<lparr>Storage_All = Inr demo_rules_good\<rparr>,
                            rules := built_table plain_lib demo_rules_good\<rparr>)"
proof -
  have bad: "\<exists>r\<in>set demo_rules_bad. isl (Parse plain_lib (LocationTemplate r))"
    by (simp add: demo_rules_bad_def plain_lib_def plain_Parse_def)
  have good: "\<forall>r\<in>set demo_rules_good. \<not> isl (Parse plain_lib (LocationTemplate r))"
    by (simp add: demo_rules_good_def plain_lib_def plain_Parse_def)
  have s1: "Storage_All (storage (demo_engine\<lparr>storage := \<lparr>Storage_All = Inr demo_rules_bad\<rparr>\<rparr>))
              = Inr demo_rules_bad"
    by simp
  have s2: "Storage_All (storage (demo_engine\<lparr>storage := \<lparr>Storage_All = Inr demo_rules_good\<rparr>\<rparr>))
              = Inr demo_rules_good"
    by simp
  from Reload_atomic [OF s1, of plain_lib] bad
  have a: "\<exists>err. Reload plain_lib (demo_engine\<lparr>storage := \<lparr>Storage_All = Inr demo_rules_bad\<rparr>\<rparr>)
             = (Some err, demo_engine\<lparr>storage := \<lparr>Storage_All = Inr demo_rules_bad\<rparr>\<rparr>)"
    by blast
  from Reload_atomic [OF s2, of plain_lib] good
  have b: "Reload plain_lib (demo_engine\<lparr>storage := \<lparr>Storage_All = Inr demo_rules_good\<rparr>\<rparr>)
             = (None, demo_engine\<lparr>storage := \<lparr>Storage_All = Inr demo_rules_good\<rparr>,
                                  rules := built_table plain_lib demo_rules_good\<rparr>)"
    by blast
  from a b show ?thesis by simp
qed

subsection \<open>C2: the response to HEAD on a matched rule\<close>

text \<open>
  Claim C2, amended. For a matched rule whose rendering succeeds, a HEAD request receives
  status 200, no body, and a \<open>Location\<close> header set to the trimmed rendered URL as it
  is: the handler answers HEAD before it reaches \<open>Redirect\<close>, and the Redirect Policy
  is applied in \<open>Redirect\<close> only, that is, for the other methods, where the final URL
  is the URL the engine hands to \<open>http.Redirect\<close>.
\<close>

theorem HEAD_hit_response:
  assumes "rules eng (Trim (URL_Path rq) ''/'') = Some tpl"
    and "Execute L tpl rq = Inr urlData"
  shows "(Method rq = ''HEAD'' \<longrightarrow>
            writer (ServeHTTP L eng newResponseWriter rq) =
              \<lparr>Header = [(''Location'', TrimSpace L urlData)], status = Some 200, body = []\<rparr>)
       \<and> (Method rq \<noteq> ''HEAD'' \<longrightarrow>
            writer (ServeHTTP L eng newResponseWriter rq) =
              http_Redirect L (Header_Add ''Content-Length'' ''0'' newResponseWriter) rq
                (finalUrl L eng rq (TrimSpace L urlData)) StatusMovedPermanently)"
proof (intro conjI impI)
  assume "Method rq = ''HEAD''"
  then show "writer (ServeHTTP L eng newResponseWriter rq) =
      \<lparr>Header = [(''Location'', TrimSpace L urlData)], status = Some 200, body = []\<rparr>"
    using assms by (simp add: ServeHTTP_hit_HEAD HEAD_writer_new)
next
  assume "Method rq \<noteq> ''HEAD''"
  then show "writer (ServeHTTP L eng newResponseWriter rq) =
      http_Redirect L (Header_Add ''Content-Length'' ''0'' newResponseWriter) rq
        (finalUrl L eng rq (TrimSpace L urlData)) StatusMovedPermanently"
    using assms by (simp add: ServeHTTP_hit_other Redirect_eq)
qed

text \<open>
  A run of C2 as amended: the rule \<open>home\<close> renders to the URL with spaces around it;
  HEAD gets it trimmed and undecorated, POST is redirected to it decorated.
\<close>

theorem HEAD_hit_response_witness:
  "writer (ServeHTTP plain_lib demo_engine newResponseWriter
             (demo_request ''HEAD'' ''/home'' ''Mozilla/5.0'')) =
     \<lparr>Header = [(''Location'', ''http://home.example'')], status = Some 200, body = []\<rparr>
   \<and> writer (ServeHTTP plain_lib demo_engine newResponseWriter
             (demo_request ''POST'' ''/home'' ''Mozilla/5.0'')) =
     http_Redirect plain_lib (Header_Add ''Content-Length'' ''0'' newResponseWriter)
       (demo_request ''POST'' ''/home'' ''Mozilla/5.0'') ''http://home.example?ref=x''
       StatusMovedPermanently
   \<and> Header_Values ''Location'' (writer (ServeHTTP plain_lib demo_engine newResponseWriter
             (demo_request ''POST'' ''/home'' ''Mozilla/5.0''))) = [''http://home.example?ref=x'']"
proof -
  have hit: "rules demo_engine (Trim (URL_Path (demo_request m ''/home'' ''Mozilla/5.0'')) ''/'')
               = Some '' http://home.example ''" for m
    by (simp add: demo_engine_def Trim_def)
  have ex: "Execute plain_lib '' http://home.example '' (demo_request m ''/home'' ''Mozilla/5.0'')
              = Inr '' http://home.example ''" for m
    by (simp add: plain_lib_def plain_Execute_def)
  have trim: "TrimSpace plain_lib '' http://home.example '' = ''http://home.example''"
    by (simp add: plain_lib_def ascii_TrimSpace_def asciiSpace_def)
  have fin: "finalUrl plain_lib demo_engine (demo_request ''POST'' ''/home'' ''Mozilla/5.0'')
               ''http://home.example'' = ''http://home.example?ref=x''"
    by (simp add: finalUrl_def Decorate_def demo_defs)
  have loc: "hexEscapeNonASCII (http_Redirect_url plain_lib
               (demo_request ''POST'' ''/home'' ''Mozilla/5.0'') ''http://home.example?ref=x'')
             = ''http://home.example?ref=x''"
    by (simp add: demo_defs)
  from HEAD_hit_response [OF hit ex, of "''HEAD''"]
  have a: "writer (ServeHTTP plain_lib demo_engine newResponseWriter
             (demo_request ''HEAD'' ''/home'' ''Mozilla/5.0'')) =
     \<lparr>Header = [(''Location'', ''http://home.example'')], status = Some 200, body = []\<rparr>"
    by (simp add: trim)
  from HEAD_hit_response [OF hit ex, of "''POST''"]
  have b: "writer (ServeHTTP plain_lib demo_engine newResponseWriter
             (demo_request ''POST'' ''/home'' ''Mozilla/5.0'')) =
     http_Redirect plain_lib (Header_Add ''Content-Length'' ''0'' newResponseWriter)
       (demo_request ''POST'' ''/home'' ''Mozilla/5.0'') ''http://home.example?ref=x''
       StatusMovedPermanently"
    by (simp add: trim fin)
  from a b show ?thesis
    by (simp add: http_Redirect_Location loc)
qed

text \<open>
  C2 as stated fails: for a regular client and the query parameter \<open>ref=x\<close>, the final
  URL of the rule \<open>t\<close> is \<open>http://t.com?ref=x\<close>, which is where GET is redirected,
  and HEAD is told \<open>http://t.com\<close>.
\<close>

theorem HEAD_location_counterexample:
  "Header_Values ''Location'' (writer (ServeHTTP plain_lib demo_engine newResponseWriter
       (demo_request ''HEAD'' ''/t'' ''Mozilla/5.0''))) = [''http://t.com'']
   \<and> finalUrl plain_lib demo_engine (demo_request ''HEAD'' ''/t'' ''Mozilla/5.0'') ''http://t.com''
       = ''http://t.com?ref=x''
   \<and> Header_Values ''Location'' (writer (ServeHTTP plain_lib demo_engine newResponseWriter
       (demo_request ''GET'' ''/t'' ''Mozilla/5.0''))) = [''http://t.com?ref=x'']"
  by (simp add: finalUrl_def Decorate_def demo_defs)

subsection \<open>C3: no rule for the service key\<close>

text \<open>
  Claim C3 asks of a request without a rule, when a default URL is configured, the
  response of a request that matches a rule rendering to the default URL, the 200 with
  \<open>Location\<close> of HEAD included. The handler answers HEAD with 200 on the hit path
  only: on the miss path it calls \<open>Redirect\<close> whatever the method. Here is the run
  where the two part: the default URL is \<open>http://home.example\<close> and the rule
  \<open>home\<close> renders to it; HEAD on an unknown path is answered 301 with
  \<open>Content-Length: 0\<close> and the decorated URL, HEAD on \<open>home\<close> is answered 200 with
  the URL as it is. (For the other methods the two responses are the same,
  \<open>miss_default_like_hit\<close>; the sink is notified on a hit only, C9.)
\<close>

theorem miss_default_HEAD_divergence:
  "status (writer (ServeHTTP plain_lib demo_engine newResponseWriter
       (demo_request ''HEAD'' ''/unknown/path'' ''Mozilla/5.0''))) = Some 301
   \<and> Header_Values ''Content-Length'' (writer (ServeHTTP plain_lib demo_engine newResponseWriter
       (demo_request ''HEAD'' ''/unknown/path'' ''Mozilla/5.0''))) = [''0'']
   \<and> Header_Values ''Location'' (writer (ServeHTTP plain_lib demo_engine newResponseWriter
       (demo_request ''HEAD'' ''/unknown/path'' ''Mozilla/5.0''))) = [''http://home.example?ref=x'']
   \<and> writer (ServeHTTP plain_lib demo_engine newResponseWriter
       (demo_request ''HEAD'' ''/home'' ''Mozilla/5.0'')) =
       \<lparr>Header = [(''Location'', ''http://home.example'')], status = Some 200, body = []\<rparr>
   \<and> TrimSpace plain_lib '' http://home.example '' = defaultUrl demo_engine"
  by (simp add: demo_defs)

subsection \<open>C4: the robot check\<close>




subsection \<open>C5: decoration of the URL\<close>

text \<open>
  Claim C5. The URL \<open>Redirect\<close> hands to \<open>http.Redirect\<close> is the spec's
  \<open>Decorate\<close> of the URL it is given, and \<open>ProcessRegularUserUrl\<close> is \<open>Decorate\<close>
  for a regular client: the URL is unchanged for a robot; for a regular client and a
  non-empty query parameter, the parameter is appended with \<open>&\<close> when the URL contains
  \<open>?\<close> and with \<open>?\<close> otherwise; the URL is unchanged for every client when the query
  parameter is empty.
\<close>

theorem Redirect_decorates:
  "Redirect L eng url wr rq =
       http_Redirect L (Header_Add ''Content-Length'' ''0'' wr) rq
         (Decorate url (IsRegularUser L eng rq) (urlParameter eng)) StatusMovedPermanently
   \<and> ProcessRegularUserUrl eng url = Decorate url True (urlParameter eng)
   \<and> (\<not> IsRegularUser L eng rq \<longrightarrow>
        Redirect L eng url wr rq =
          http_Redirect L (Header_Add ''Content-Length'' ''0'' wr) rq url StatusMovedPermanently)
   \<and> (IsRegularUser L eng rq \<and> urlParameter eng \<noteq> [] \<and> Contains url ''?'' \<longrightarrow>
        ProcessRegularUserUrl eng url = url @ ''&'' @ urlParameter eng \<and>
        Redirect L eng url wr rq =
          http_Redirect L (Header_Add ''Content-Length'' ''0'' wr) rq
            (url @ ''&'' @ urlParameter eng) StatusMovedPermanently)
   \<and> (IsRegularUser L eng rq \<and> urlParameter eng \<noteq> [] \<and> \<not> Contains url ''?'' \<longrightarrow>
        ProcessRegularUserUrl eng url = url @ ''?'' @ urlParameter eng \<and>
        Redirect L eng url wr rq =
          http_Redirect L (Header_Add ''Content-Length'' ''0'' wr) rq
            (url @ ''?'' @ urlParameter eng) StatusMovedPermanently)
   \<and> (urlParameter eng = [] \<longrightarrow>
        ProcessRegularUserUrl eng url = url \<and>
        Redirect L eng url wr rq =
          http_Redirect L (Header_Add ''Content-Length'' ''0'' wr) rq url StatusMovedPermanently)"
  by (simp add: Redirect_def Let_def ProcessRegularUserUrl_def Decorate_def)

text \<open>
  A run of C5, the spec's example: robots \<open>bot\<close> and \<open>crawler\<close>, query parameter
  \<open>ref=x\<close>.
\<close>

theorem Redirect_decorates_witness:
  "Redirect plain_lib demo_engine ''http://t.com'' newResponseWriter
       (demo_request ''GET'' ''/t'' ''Some-Crawler/1.0'') =
     http_Redirect plain_lib (Header_Add ''Content-Length'' ''0'' newResponseWriter)
       (demo_request ''GET'' ''/t'' ''Some-Crawler/1.0'') ''http://t.com'' StatusMovedPermanently
   \<and> Redirect plain_lib demo_engine ''http://t.com'' newResponseWriter
       (demo_request ''GET'' ''/t'' ''Mozilla/5.0'') =
     http_Redirect plain_lib (Header_Add ''Content-Length'' ''0'' newResponseWriter)
       (demo_request ''GET'' ''/t'' ''Mozilla/5.0'') ''http://t.com?ref=x'' StatusMovedPermanently
   \<and> ProcessRegularUserUrl demo_engine ''http://t.com'' = ''http://t.com?ref=x''
   \<and> Redirect plain_lib demo_engine ''http://t.com?id=1'' newResponseWriter
       (demo_request ''GET'' ''/q'' ''Mozilla/5.0'') =
     http_Redirect plain_lib (Header_Add ''Content-Length'' ''0'' newResponseWriter)
       (demo_request ''GET'' ''/q'' ''Mozilla/5.0'') ''http://t.com?id=1&ref=x'' StatusMovedPermanently
   \<and> ProcessRegularUserUrl demo_engine ''http://t.com?id=1'' = ''http://t.com?id=1&ref=x''
   \<and> Redirect plain_lib (demo_engine\<lparr>urlParameter := []\<rparr>) ''http://t.com'' newResponseWriter
       (demo_request ''GET'' ''/t'' ''Mozilla/5.0'') =
     http_Redirect plain_lib (Header_Add ''Content-Length'' ''0'' newResponseWriter)
       (demo_request ''GET'' ''/t'' ''Mozilla/5.0'') ''http://t.com'' StatusMovedPermanently
   \<and> ProcessRegularUserUrl (demo_engine\<lparr>urlParameter := []\<rparr>) ''http://t.com'' = ''http://t.com''"
proof -
  have robot: "\<not> IsRegularUser plain_lib demo_engine (demo_request ''GET'' ''/t'' ''Some-Crawler/1.0'')"
    by (simp add: demo_defs)
  have reg: "IsRegularUser plain_lib demo_engine (demo_request ''GET'' p ''Mozilla/5.0'')" for p
    by (simp add: demo_defs)
  have p: "urlParameter demo_engine = ''ref=x''" "urlParameter (demo_engine\<lparr>urlParameter := []\<rparr>) = []"
    by (simp_all add: demo_engine_def)
  have ne: "urlParameter demo_engine \<noteq> []"
    by (simp add: p)
  have q: "\<not> Contains ''http://t.com'' ''?''" "Contains ''http://t.com?id=1'' ''?''"
    by simp_all
  from Redirect_decorates [of plain_lib demo_engine "''http://t.com''" newResponseWriter
      "demo_request ''GET'' ''/t'' ''Some-Crawler/1.0''"] robot
  have a: "Redirect plain_lib demo_engine ''http://t.com'' newResponseWriter
       (demo_request ''GET'' ''/t'' ''Some-Crawler/1.0'') =
     http_Redirect plain_lib (Header_Add ''Content-Length'' ''0'' newResponseWriter)
       (demo_request ''GET'' ''/t'' ''Some-Crawler/1.0'') ''http://t.com'' StatusMovedPermanently"
    by blast
  from Redirect_decorates [of plain_lib demo_engine "''http://t.com''" newResponseWriter
      "demo_request ''GET'' ''/t'' ''Mozilla/5.0''"] reg ne q(1)
  have b: "ProcessRegularUserUrl demo_engine ''http://t.com'' =
       ''http://t.com'' @ ''?'' @ urlParameter demo_engine \<and>
     Redirect plain_lib demo_engine ''http://t.com'' newResponseWriter
       (demo_request ''GET'' ''/t'' ''Mozilla/5.0'') =
     http_Redirect plain_lib (Header_Add ''Content-Length'' ''0'' newResponseWriter)
       (demo_request ''GET'' ''/t'' ''Mozilla/5.0'')
       (''http://t.com'' @ ''?'' @ urlParameter demo_engine) StatusMovedPermanently"
    by blast
  from Redirect_decorates [of plain_lib demo_engine "''http://t.com?id=1''" newResponseWriter
      "demo_request ''GET'' ''/q'' ''Mozilla/5.0''"] reg ne q(2)
  have c: "ProcessRegularUserUrl demo_engine ''http://t.com?id=1'' =
       ''http://t.com?id=1'' @ ''&'' @ urlParameter demo_engine \<and>
     Redirect plain_lib demo_engine ''http://t.com?id=1'' newResponseWriter
       (demo_request ''GET'' ''/q'' ''Mozilla/5.0'') =
     http_Redirect plain_lib (Header_Add ''Content-Length'' ''0'' newResponseWriter)
       (demo_request ''GET'' ''/q'' ''Mozilla/5.0'')
       (''http://t.com?id=1'' @ ''&'' @ urlParameter demo_engine) StatusMovedPermanently"
    by blast
  from Redirect_decorates [of plain_lib "demo_engine\<lparr>urlParameter := []\<rparr>" "''http://t.com''"
      newResponseWriter "demo_request ''GET'' ''/t'' ''Mozilla/5.0''"] p(2)
  have d: "ProcessRegularUserUrl (demo_engine\<lparr>urlParameter := []\<rparr>) ''http://t.com'' = ''http://t.com'' \<and>
     Redirect plain_lib (demo_engine\<lparr>urlParameter := []\<rparr>) ''http://t.com'' newResponseWriter
       (demo_request ''GET'' ''/t'' ''Mozilla/5.0'') =
     http_Redirect plain_lib (Header_Add ''Content-Length'' ''0'' newResponseWriter)
       (demo_request ''GET'' ''/t'' ''Mozilla/5.0'') ''http://t.com'' StatusMovedPermanently"
    by blast
  from a b c d show ?thesis by (simp add: p)
qed

subsection \<open>C6: the response to the other methods\<close>

text \<open>
  Claim C6, amended. For a method other than HEAD, a request that matches a rule which
  renders, and a request without a rule when a default URL is configured, are answered
  with status 301 and a \<open>Content-Length\<close> header of 0, and the engine hands the final
  URL to \<open>http.Redirect\<close>. The \<open>Location\<close> header is what \<open>http.Redirect\<close> makes
  of the final URL: a URL without scheme and host is resolved against the request path,
  and bytes outside ASCII are percent-escaped. For a final URL with a scheme or a host and
  ASCII bytes only, the \<open>Location\<close> header is the final URL.
\<close>

theorem non_HEAD_response:
  assumes "Method rq \<noteq> ''HEAD''"
  shows "(\<forall>tpl urlData.
            rules eng (Trim (URL_Path rq) ''/'') = Some tpl \<and> Execute L tpl rq = Inr urlData \<longrightarrow>
            status (writer (ServeHTTP L eng newResponseWriter rq)) = Some 301 \<and>
            Header_Values ''Content-Length'' (writer (ServeHTTP L eng newResponseWriter rq)) = [''0''] \<and>
            writer (ServeHTTP L eng newResponseWriter rq) =
              http_Redirect L (Header_Add ''Content-Length'' ''0'' newResponseWriter) rq
                (finalUrl L eng rq (TrimSpace L urlData)) StatusMovedPermanently \<and>
            Header_Values ''Location'' (writer (ServeHTTP L eng newResponseWriter rq)) =
              [hexEscapeNonASCII (http_Redirect_url L rq (finalUrl L eng rq (TrimSpace L urlData)))])
       \<and> (rules eng (Trim (URL_Path rq) ''/'') = None \<and> defaultUrl eng \<noteq> [] \<longrightarrow>
            status (writer (ServeHTTP L eng newResponseWriter rq)) = Some 301 \<and>
            Header_Values ''Content-Length'' (writer (ServeHTTP L eng newResponseWriter rq)) = [''0''] \<and>
            writer (ServeHTTP L eng newResponseWriter rq) =
              http_Redirect L (Header_Add ''Content-Length'' ''0'' newResponseWriter) rq
                (finalUrl L eng rq (defaultUrl eng)) StatusMovedPermanently \<and>
            Header_Values ''Location'' (writer (ServeHTTP L eng newResponseWriter rq)) =
              [hexEscapeNonASCII (http_Redirect_url L rq (finalUrl L eng rq (defaultUrl eng)))])
       \<and> (\<forall>url scheme host.
            url_Parse L url = Some (scheme, host) \<and> (scheme \<noteq> [] \<or> host \<noteq> []) \<and>
            (\<forall>c\<in>set url. (of_char c :: nat) < 128) \<longrightarrow>
            hexEscapeNonASCII (http_Redirect_url L rq url) = url)"
proof (intro conjI allI impI)
  fix tpl urlData
  assume h: "rules eng (Trim (URL_Path rq) ''/'') = Some tpl \<and> Execute L tpl rq = Inr urlData"
  then have w: "writer (ServeHTTP L eng newResponseWriter rq) =
      Redirect L eng (TrimSpace L urlData) newResponseWriter rq"
    using assms by (simp add: ServeHTTP_hit_other)
  show "status (writer (ServeHTTP L eng newResponseWriter rq)) = Some 301"
    by (simp add: w Redirect_status)
  show "Header_Values ''Content-Length'' (writer (ServeHTTP L eng newResponseWriter rq)) = [''0'']"
    by (simp add: w Redirect_Content_Length)
  show "writer (ServeHTTP L eng newResponseWriter rq) =
      http_Redirect L (Header_Add ''Content-Length'' ''0'' newResponseWriter) rq
        (finalUrl L eng rq (TrimSpace L urlData)) StatusMovedPermanently"
    by (simp add: w Redirect_eq)
  show "Header_Values ''Location'' (writer (ServeHTTP L eng newResponseWriter rq)) =
      [hexEscapeNonASCII (http_Redirect_url L rq (finalUrl L eng rq (TrimSpace L urlData)))]"
    by (simp add: w Redirect_Location)
next
  assume h: "rules eng (Trim (URL_Path rq) ''/'') = None \<and> defaultUrl eng \<noteq> []"
  then have w: "writer (ServeHTTP L eng newResponseWriter rq) =
      Redirect L eng (defaultUrl eng) newResponseWriter rq"
    by (simp add: ServeHTTP_miss_default)
  show "status (writer (ServeHTTP L eng newResponseWriter rq)) = Some 301"
    by (simp add: w Redirect_status)
  show "Header_Values ''Content-Length'' (writer (ServeHTTP L eng newResponseWriter rq)) = [''0'']"
    by (simp add: w Redirect_Content_Length)
  show "writer (ServeHTTP L eng newResponseWriter rq) =
      http_Redirect L (Header_Add ''Content-Length'' ''0'' newResponseWriter) rq
        (finalUrl L eng rq (defaultUrl eng)) StatusMovedPermanently"
    by (simp add: w Redirect_eq)
  show "Header_Values ''Location'' (writer (ServeHTTP L eng newResponseWriter rq)) =
      [hexEscapeNonASCII (http_Redirect_url L rq (finalUrl L eng rq (defaultUrl eng)))]"
    by (simp add: w Redirect_Location)
next
  fix url scheme host
  assume h: "url_Parse L url = Some (scheme, host) \<and> (scheme \<noteq> [] \<or> host \<noteq> []) \<and>
             (\<forall>c\<in>set url. (of_char c :: nat) < 128)"
  then have "http_Redirect_url L rq url = url"
    using http_Redirect_url_absolute [of L url scheme host rq] by blast
  with h show "hexEscapeNonASCII (http_Redirect_url L rq url) = url"
    by (simp add: hexEscapeNonASCII_ascii)
qed

text \<open>
  A run of C6 as amended: a GET of the rule \<open>q\<close> by a browser, and a DELETE of an
  unknown path by a crawler; both final URLs have a scheme.
\<close>

theorem non_HEAD_response_witness:
  "status (writer (ServeHTTP plain_lib demo_engine newResponseWriter
       (demo_request ''GET'' ''/q/'' ''Mozilla/5.0''))) = Some 301
   \<and> Header_Values ''Content-Length'' (writer (ServeHTTP plain_lib demo_engine newResponseWriter
       (demo_request ''GET'' ''/q/'' ''Mozilla/5.0''))) = [''0'']
   \<and> Header_Values ''Location'' (writer (ServeHTTP plain_lib demo_engine newResponseWriter
       (demo_request ''GET'' ''/q/'' ''Mozilla/5.0''))) = [''http://t.com?id=1&ref=x'']
   \<and> status (writer (ServeHTTP plain_lib demo_engine newResponseWriter
       (demo_request ''DELETE'' ''/nothing/here'' ''a crawler''))) = Some 301
   \<and> Header_Values ''Content-Length'' (writer (ServeHTTP plain_lib demo_engine newResponseWriter
       (demo_request ''DELETE'' ''/nothing/here'' ''a crawler''))) = [''0'']
   \<and> Header_Values ''Location'' (writer (ServeHTTP plain_lib demo_engine newResponseWriter
       (demo_request ''DELETE'' ''/nothing/here'' ''a crawler''))) = [''http://home.example'']"
proof -
  let ?rq = "demo_request ''GET'' ''/q/'' ''Mozilla/5.0''"
  let ?rq' = "demo_request ''DELETE'' ''/nothing/here'' ''a crawler''"
  have m: "Method ?rq \<noteq> ''HEAD''" "Method ?rq' \<noteq> ''HEAD''"
    by simp_all
  have hit: "rules demo_engine (Trim (URL_Path ?rq) ''/'') = Some ''http://t.com?id=1'' \<and>
             Execute plain_lib ''http://t.com?id=1'' ?rq = Inr ''http://t.com?id=1''"
    by (simp add: demo_engine_def Trim_def plain_lib_def plain_Execute_def)
  have miss: "rules demo_engine (Trim (URL_Path ?rq') ''/'') = None \<and> defaultUrl demo_engine \<noteq> []"
    by (simp add: demo_engine_def Trim_def)
  have fin: "finalUrl plain_lib demo_engine ?rq (TrimSpace plain_lib ''http://t.com?id=1'')
               = ''http://t.com?id=1&ref=x''"
    "finalUrl plain_lib demo_engine ?rq' (defaultUrl demo_engine) = ''http://home.example''"
    by (simp_all add: finalUrl_def Decorate_def demo_defs)
  have abs1: "url_Parse plain_lib ''http://t.com?id=1&ref=x'' = Some (''http'', ''t.com'') \<and>
      (''http'' \<noteq> [] \<or> ''t.com'' \<noteq> []) \<and>
      (\<forall>c\<in>set ''http://t.com?id=1&ref=x''. (of_char c :: nat) < 128)"
    by (simp add: plain_lib_def plain_url_Parse_def)
  have abs2: "url_Parse plain_lib ''http://home.example'' = Some (''http'', ''home.example'') \<and>
      (''http'' \<noteq> [] \<or> ''home.example'' \<noteq> []) \<and>
      (\<forall>c\<in>set ''http://home.example''. (of_char c :: nat) < 128)"
    by (simp add: plain_lib_def plain_url_Parse_def)
  from non_HEAD_response [OF m(1), of demo_engine plain_lib] hit abs1
  have a: "status (writer (ServeHTTP plain_lib demo_engine newResponseWriter ?rq)) = Some 301 \<and>
      Header_Values ''Content-Length'' (writer (ServeHTTP plain_lib demo_engine newResponseWriter ?rq)) = [''0''] \<and>
      Header_Values ''Location'' (writer (ServeHTTP plain_lib demo_engine newResponseWriter ?rq)) =
        [hexEscapeNonASCII (http_Redirect_url plain_lib ?rq
           (finalUrl plain_lib demo_engine ?rq (TrimSpace plain_lib ''http://t.com?id=1'')))]"
    and a': "hexEscapeNonASCII (http_Redirect_url plain_lib ?rq ''http://t.com?id=1&ref=x'')
               = ''http://t.com?id=1&ref=x''"
    by blast+
  from non_HEAD_response [OF m(2), of demo_engine plain_lib] miss abs2
  have b: "status (writer (ServeHTTP plain_lib demo_engine newResponseWriter ?rq')) = Some 301 \<and>
      Header_Values ''Content-Length'' (writer (ServeHTTP plain_lib demo_engine newResponseWriter ?rq')) = [''0''] \<and>
      Header_Values ''Location'' (writer (ServeHTTP plain_lib demo_engine newResponseWriter ?rq')) =
        [hexEscapeNonASCII (http_Redirect_url plain_lib ?rq'
           (finalUrl plain_lib demo_engine ?rq' (defaultUrl demo_engine)))]"
    and b': "hexEscapeNonASCII (http_Redirect_url plain_lib ?rq' ''http://home.example'')
               = ''http://home.example''"
    by blast+
  from a a' b b' show ?thesis by (simp add: fin)
qed

text \<open>
  C6 as stated fails: with the default URL \<open>home\<close>, a URL without scheme and host, the
  final URL of a GET of \<open>/unknown/path\<close> is \<open>home?ref=x\<close>, and the \<open>Location\<close>
  header is \<open>/unknown/home?ref=x\<close>.
\<close>

theorem relative_Location_counterexample:
  "finalUrl plain_lib (demo_engine\<lparr>defaultUrl := ''home''\<rparr>)
       (demo_request ''GET'' ''/unknown/path'' ''Mozilla/5.0'') ''home'' = ''home?ref=x''
   \<and> status (writer (ServeHTTP plain_lib (demo_engine\<lparr>defaultUrl := ''home''\<rparr>) newResponseWriter
       (demo_request ''GET'' ''/unknown/path'' ''Mozilla/5.0''))) = Some 301
   \<and> Header_Values ''Location''
       (writer (ServeHTTP plain_lib (demo_engine\<lparr>defaultUrl := ''home''\<rparr>) newResponseWriter
          (demo_request ''GET'' ''/unknown/path'' ''Mozilla/5.0''))) = [''/unknown/home?ref=x'']"
  by (simp add: finalUrl_def Decorate_def demo_defs)

subsection \<open>C7: a rule that fails to render\<close>

text \<open>
  Claim C7, amended. For a request whose matched rule fails to render, the response has
  status 500 and its body is the text of the rendering error followed by a newline; the
  service key goes to the log line, not to the body; the rule table after the request is
  the rule table before it.
\<close>

theorem render_error_response:
  assumes "rules eng (Trim (URL_Path rq) ''/'') = Some tpl"
    and "Execute L tpl rq = Inl err"
  shows "status (writer (ServeHTTP L eng newResponseWriter rq)) = Some 500
       \<and> body (writer (ServeHTTP L eng newResponseWriter rq)) = err @ [CHR 0x0A]
       \<and> logged (ServeHTTP L eng newResponseWriter rq) =
           [''engine: failed execute template for service '' @ Trim (URL_Path rq) ''/'' @
            '' : '' @ err @ [CHR 0x0A]]
       \<and> rules (engine_after (ServeHTTP L eng newResponseWriter rq)) = rules eng"
  using assms
  by (simp add: ServeHTTP_hit_error http_Error_new StatusInternalServerError_def)

text \<open>
  A run of C7 as amended: the rule \<open>broken\<close> is the template \<open>{{.Foo}}\<close>.
\<close>

theorem render_error_response_witness:
  "status (writer (ServeHTTP plain_lib demo_engine newResponseWriter
       (demo_request ''GET'' ''/broken'' ''Mozilla/5.0''))) = Some 500
   \<and> body (writer (ServeHTTP plain_lib demo_engine newResponseWriter
       (demo_request ''GET'' ''/broken'' ''Mozilla/5.0''))) =
       ''template: :1:2: executing '' @ [CHR 0x22, CHR 0x22] @
       '' at <.Foo>: can't evaluate field Foo in type *http.Request'' @ [CHR 0x0A]
   \<and> rules (engine_after (ServeHTTP plain_lib demo_engine newResponseWriter
       (demo_request ''GET'' ''/broken'' ''Mozilla/5.0''))) = rules demo_engine"
proof -
  let ?rq = "demo_request ''GET'' ''/broken'' ''Mozilla/5.0''"
  have hit: "rules demo_engine (Trim (URL_Path ?rq) ''/'') = Some ''{{.Foo}}''"
    by (simp add: demo_engine_def Trim_def)
  have ex: "Execute plain_lib ''{{.Foo}}'' ?rq =
      Inl (''template: :1:2: executing '' @ [CHR 0x22, CHR 0x22] @
           '' at <.Foo>: can't evaluate field Foo in type *http.Request'')"
    by (simp add: plain_lib_def plain_Execute_def)
  from render_error_response [OF hit ex] show ?thesis by simp
qed

text \<open>
  C7 as stated fails: the body of the 500 response for the service key \<open>broken\<close> is
  the template library's message, in which the key does not occur; the log line names
  it.
\<close>

theorem render_error_body_counterexample:
  "status (writer (ServeHTTP plain_lib demo_engine newResponseWriter
       (demo_request ''GET'' ''/broken'' ''Mozilla/5.0''))) = Some 500
   \<and> \<not> Contains (body (writer (ServeHTTP plain_lib demo_engine newResponseWriter
                     (demo_request ''GET'' ''/broken'' ''Mozilla/5.0'')))) ''broken''
   \<and> Contains (concat (logged (ServeHTTP plain_lib demo_engine newResponseWriter
                     (demo_request ''GET'' ''/broken'' ''Mozilla/5.0'')))) ''broken''"
  by (simp add: demo_defs)

subsection \<open>C9: notifying the sink\<close>

text \<open>
  Claim C9. On a hit the sink is notified of the service key once, whatever becomes of the
  rendering: a request whose rendering fails and is answered 500 has notified the sink
  once too. On a miss, with or without a default URL, the sink is not notified.
\<close>

theorem Touch_once_on_hit:
  "(\<forall>tpl. rules eng (Trim (URL_Path rq) ''/'') = Some tpl \<longrightarrow>
       touched (stat (engine_after (ServeHTTP L eng wr rq))) =
         touched (stat eng) @ [Trim (URL_Path rq) ''/''])
   \<and> (\<forall>tpl err. rules eng (Trim (URL_Path rq) ''/'') = Some tpl \<and> Execute L tpl rq = Inl err \<longrightarrow>
       status (writer (ServeHTTP L eng newResponseWriter rq)) = Some 500 \<and>
       touched (stat (engine_after (ServeHTTP L eng newResponseWriter rq))) =
         touched (stat eng) @ [Trim (URL_Path rq) ''/''])
   \<and> (rules eng (Trim (URL_Path rq) ''/'') = None \<longrightarrow>
       touched (stat (engine_after (ServeHTTP L eng wr rq))) = touched (stat eng))"
  by (simp add: ServeHTTP_engine_after Touch_def ServeHTTP_hit_error http_Error_new
      StatusInternalServerError_def)

text \<open>
  A run of C9: a hit, a hit that fails to render, and a miss with and without a default
  URL, each starting from a sink that has seen nothing.
\<close>

theorem Touch_once_on_hit_witness:
  "touched (stat (engine_after (ServeHTTP plain_lib demo_engine newResponseWriter
       (demo_request ''GET'' ''/t'' ''Mozilla/5.0'')))) = [''t'']
   \<and> status (writer (ServeHTTP plain_lib demo_engine newResponseWriter
       (demo_request ''GET'' ''/broken'' ''Mozilla/5.0''))) = Some 500
   \<and> touched (stat (engine_after (ServeHTTP plain_lib demo_engine newResponseWriter
       (demo_request ''GET'' ''/broken'' ''Mozilla/5.0'')))) = [''broken'']
   \<and> touched (stat (engine_after (ServeHTTP plain_lib demo_engine newResponseWriter
       (demo_request ''GET'' ''/unknown/path'' ''Mozilla/5.0'')))) = []
   \<and> touched (stat (engine_after (ServeHTTP plain_lib (demo_engine\<lparr>defaultUrl := []\<rparr>)
       newResponseWriter (demo_request ''GET'' ''/unknown/path'' ''Mozilla/5.0'')))) = []"
proof -
  have k: "rules demo_engine (Trim (URL_Path (demo_request ''GET'' ''/t'' ''Mozilla/5.0'')) ''/'')
             = Some ''http://t.com''"
    "rules demo_engine (Trim (URL_Path (demo_request ''GET'' ''/broken'' ''Mozilla/5.0'')) ''/'')
       = Some ''{{.Foo}}''"
    "rules demo_engine (Trim (URL_Path (demo_request ''GET'' ''/unknown/path'' ''Mozilla/5.0'')) ''/'')
       = None"
    "rules (demo_engine\<lparr>defaultUrl := []\<rparr>)
       (Trim (URL_Path (demo_request ''GET'' ''/unknown/path'' ''Mozilla/5.0'')) ''/'') = None"
    by (simp_all add: demo_engine_def Trim_def)
  have t: "Trim ''/t'' ''/'' = ''t''" "Trim ''/broken'' ''/'' = ''broken''"
    by (simp_all add: Trim_def)
  have s: "touched (stat demo_engine) = []" "touched (stat (demo_engine\<lparr>defaultUrl := []\<rparr>)) = []"
    by (simp_all add: demo_engine_def)
  have ex: "Execute plain_lib ''{{.Foo}}'' (demo_request ''GET'' ''/broken'' ''Mozilla/5.0'') =
      Inl (''template: :1:2: executing '' @ [CHR 0x22, CHR 0x22] @
           '' at <.Foo>: can't evaluate field Foo in type *http.Request'')"
    by (simp add: plain_lib_def plain_Execute_def)
  show ?thesis
    using Touch_once_on_hit [of demo_engine "demo_request ''GET'' ''/t'' ''Mozilla/5.0''"
        plain_lib newResponseWriter]
      Touch_once_on_hit [of demo_engine "demo_request ''GET'' ''/broken'' ''Mozilla/5.0''"
        plain_lib newResponseWriter]
      Touch_once_on_hit [of demo_engine "demo_request ''GET'' ''/unknown/path'' ''Mozilla/5.0''"
        plain_lib newResponseWriter]
      Touch_once_on_hit [of "demo_engine\<lparr>defaultUrl := []\<rparr>"
        "demo_request ''GET'' ''/unknown/path'' ''Mozilla/5.0''" plain_lib newResponseWriter]
      k ex
    by (simp add: t s)
qed

subsection \<open>C10: an empty robots configuration\<close>




end
